theory Spec2Isabelle
  imports Complex_Main
begin

section \<open>Python strings\<close>

text \<open>
  A Python \<open>str\<close> is a sequence of Unicode code points and \<open>len\<close> counts code points, so
  a string is a list of code points. \<open>ustr\<close> reads an ASCII literal.
\<close>

type_synonym ustring = "nat list"

definition ustr :: "string \<Rightarrow> ustring" where
  "ustr s = map of_char s"

text \<open>
  \<open>str.isspace\<close>, \<open>str.strip()\<close>, \<open>str.split()\<close> and the pattern \<open>\s\<close> of \<open>re\<close> on a
  \<open>str\<close> all use the interpreter's one whitespace table.
\<close>

definition is_space :: "nat \<Rightarrow> bool" where
  "is_space c =
     ((9 \<le> c \<and> c \<le> 13) \<or> (28 \<le> c \<and> c \<le> 32) \<or> c = 133 \<or> c = 160 \<or> c = 5760 \<or>
      (8192 \<le> c \<and> c \<le> 8202) \<or> c = 8232 \<or> c = 8233 \<or> c = 8239 \<or> c = 8287 \<or>
      c = 12288)"

text \<open>
  \<open>\w\<close> matches \<open>str.isalnum\<close> characters and the underscore. The ASCII part of the
  alphanumeric table is written out; for the code points from 128 on the table of the
  interpreter's Unicode database is a parameter \<open>tbl\<close>.
\<close>

definition is_alnum :: "(nat \<Rightarrow> bool) \<Rightarrow> nat \<Rightarrow> bool" where
  "is_alnum tbl c =
     (if c < 128 then (48 \<le> c \<and> c \<le> 57) \<or> (65 \<le> c \<and> c \<le> 90) \<or> (97 \<le> c \<and> c \<le> 122)
      else tbl c)"

definition is_word :: "(nat \<Rightarrow> bool) \<Rightarrow> nat \<Rightarrow> bool" where
  "is_word tbl c = (is_alnum tbl c \<or> c = 95)"

text \<open>The alphanumeric table for the code points 128 to 255; nothing above them.\<close>

definition latin1_alnum :: "nat \<Rightarrow> bool" where
  "latin1_alnum c =
     (c = 170 \<or> c = 178 \<or> c = 179 \<or> c = 181 \<or> c = 185 \<or> c = 186 \<or>
      (188 \<le> c \<and> c \<le> 190) \<or> (192 \<le> c \<and> c \<le> 214) \<or> (216 \<le> c \<and> c \<le> 246) \<or>
      (248 \<le> c \<and> c \<le> 255))"

definition strip :: "ustring \<Rightarrow> ustring" where
  "strip s = rev (dropWhile is_space (rev (dropWhile is_space s)))"

text \<open>
  \<open>str.split()\<close> with no argument: whitespace is skipped, and a word runs from a
  non-whitespace character to the next whitespace or the end.
\<close>

function split_ws :: "ustring \<Rightarrow> ustring list" where
  "split_ws [] = []"
| "split_ws (c # cs) =
     (if is_space c then split_ws cs
      else (c # takeWhile (\<lambda>x. \<not> is_space x) cs)
             # split_ws (dropWhile (\<lambda>x. \<not> is_space x) cs))"
  by pat_completeness auto
termination
proof (relation "measure length")
  show "wf (measure length)" by simp
next
  fix c :: nat and cs :: ustring
  show "(cs, c # cs) \<in> measure length" by simp
next
  fix c :: nat and cs :: ustring
  have "length (dropWhile (\<lambda>x. \<not> is_space x) cs) \<le> length cs"
    by (rule length_dropWhile_le)
  then show "(dropWhile (\<lambda>x. \<not> is_space x) cs, c # cs) \<in> measure length"
    by simp
qed

text \<open>\<open>sep.join(ws)\<close>.\<close>

fun join :: "ustring \<Rightarrow> ustring list \<Rightarrow> ustring" where
  "join sep [] = []"
| "join sep [w] = w"
| "join sep (w # v # ws) = w @ sep @ join sep (v # ws)"

section \<open>Exceptions, ranges and slices\<close>

text \<open>
  A raised exception carries its message. \<open>Exn\<close> is an instance of \<open>Exception\<close>, which
  \<open>except Exception\<close> catches; \<open>BaseExn\<close> is one that is not (\<open>KeyboardInterrupt\<close>,
  \<open>SystemExit\<close>), which it lets through.
\<close>

datatype exn = Exn ustring | BaseExn ustring

function range_up :: "int \<Rightarrow> int \<Rightarrow> int \<Rightarrow> int list" where
  "range_up i stop step =
     (if 0 < step \<and> i < stop then i # range_up (i + step) stop step else [])"
  by pat_completeness auto
termination
  by (relation "measure (\<lambda>(i, stop, step). nat (stop - i))") auto

declare range_up.simps [simp del]

function range_down :: "int \<Rightarrow> int \<Rightarrow> int \<Rightarrow> int list" where
  "range_down i stop step =
     (if step < 0 \<and> stop < i then i # range_down (i + step) stop step else [])"
  by pat_completeness auto
termination
  by (relation "measure (\<lambda>(i, stop, step). nat (i - stop))") auto

declare range_down.simps [simp del]

text \<open>\<open>range(start, stop, step)\<close>, which raises \<open>ValueError\<close> when the step is zero.\<close>

definition py_range :: "int \<Rightarrow> int \<Rightarrow> int \<Rightarrow> exn + int list" where
  "py_range start stop step =
     (if step = 0 then Inl (Exn (ustr ''range() arg 3 must not be zero''))
      else if 0 < step then Inr (range_up start stop step)
      else Inr (range_down start stop step))"

text \<open>
  A slice bound of \<open>xs[i:j]\<close>: a negative bound counts from the end, and every bound is
  clamped to the list.
\<close>

definition slice_index :: "nat \<Rightarrow> int \<Rightarrow> nat" where
  "slice_index n i = (if i < 0 then nat (max 0 (int n + i)) else min n (nat i))"

definition py_slice :: "'a list \<Rightarrow> int \<Rightarrow> int \<Rightarrow> 'a list" where
  "py_slice xs i j =
     (let lo = slice_index (length xs) i; hi = slice_index (length xs) j
      in take (hi - lo) (drop lo xs))"

section \<open>BookRAGProcessor.clean_text\<close>

text \<open>\<open>re.sub(r'\s+', ' ', text)\<close>: every maximal whitespace run becomes one space.\<close>

function collapse_ws :: "ustring \<Rightarrow> ustring" where
  "collapse_ws [] = []"
| "collapse_ws (c # cs) =
     (if is_space c then 32 # collapse_ws (dropWhile is_space cs) else c # collapse_ws cs)"
  by pat_completeness auto
termination
proof (relation "measure length")
  show "wf (measure length)" by simp
next
  fix c :: nat and cs :: ustring
  have "length (dropWhile is_space cs) \<le> length cs"
    by (rule length_dropWhile_le)
  then show "(dropWhile is_space cs, c # cs) \<in> measure length"
    by simp
next
  fix c :: nat and cs :: ustring
  show "(cs, c # cs) \<in> measure length"
    by simp
qed

text \<open>The punctuation of the character class: \<open>. , ! ? ; : - ( )\<close>.\<close>

definition is_punct :: "nat \<Rightarrow> bool" where
  "is_punct c = (c \<in> set (ustr ''.,!?;:-()''))"

definition allowed :: "(nat \<Rightarrow> bool) \<Rightarrow> nat \<Rightarrow> bool" where
  "allowed tbl c = (is_word tbl c \<or> is_space c \<or> is_punct c)"

definition clean_text :: "(nat \<Rightarrow> bool) \<Rightarrow> ustring \<Rightarrow> ustring" where
  "clean_text tbl text =
     (let text = collapse_ws text;
          text = filter (allowed tbl) text
      in strip text)"

section \<open>BookRAGProcessor.chunk_text\<close>

text \<open>The body of the loop over the window starts, with the list \<open>chunks\<close> it appends to.\<close>

fun chunk_loop :: "ustring list \<Rightarrow> int \<Rightarrow> int list \<Rightarrow> ustring list \<Rightarrow> ustring list" where
  "chunk_loop words chunk_size [] chunks = chunks"
| "chunk_loop words chunk_size (i # rest) chunks =
     (let chunk = join [32] (py_slice words i (i + chunk_size))
      in chunk_loop words chunk_size rest
           (if 50 < length (strip chunk) then chunks @ [chunk] else chunks))"

definition chunk_text :: "ustring \<Rightarrow> int \<Rightarrow> int \<Rightarrow> exn + ustring list" where
  "chunk_text text chunk_size overlap =
     (let words = split_ws text
      in case py_range 0 (int (length words)) (chunk_size - overlap) of
           Inl e \<Rightarrow> Inl e
         | Inr starts \<Rightarrow> Inr (chunk_loop words chunk_size starts []))"

text \<open>
  The raw windows: the slices \<open>words[i:i + chunk_size]\<close> the loop takes, one for each
  start, before they are joined and filtered by length.
\<close>

definition raw_windows :: "ustring \<Rightarrow> int \<Rightarrow> int \<Rightarrow> exn + ustring list list" where
  "raw_windows text chunk_size overlap =
     (let words = split_ws text
      in case py_range 0 (int (length words)) (chunk_size - overlap) of
           Inl e \<Rightarrow> Inl e
         | Inr starts \<Rightarrow> Inr (map (\<lambda>i. py_slice words i (i + chunk_size)) starts))"

section \<open>More of Python's library\<close>


text \<open>
  \<open>s.replace(old, new)\<close>: every occurrence of \<open>old\<close>, found from the left without
  overlap, becomes \<open>new\<close>. An empty \<open>old\<close> matches before every character and at the end.
\<close>

function replace_from :: "ustring \<Rightarrow> ustring \<Rightarrow> ustring \<Rightarrow> ustring" where
  "replace_from old new [] = []"
| "replace_from old new (c # cs) =
     (if old \<noteq> [] \<and> take (length old) (c # cs) = old
      then new @ replace_from old new (drop (length old) (c # cs))
      else c # replace_from old new cs)"
  by pat_completeness auto
termination
  by (relation "measure (\<lambda>(old, new, s). length s)") (auto simp: neq_Nil_conv)

definition py_replace :: "ustring \<Rightarrow> ustring \<Rightarrow> ustring \<Rightarrow> ustring" where
  "py_replace s old new =
     (if old = [] then new @ concat (map (\<lambda>c. c # new) s) else replace_from old new s)"


text \<open>\<open>str(n)\<close> of an integer, as an f-string formats it.\<close>

function str_nat :: "nat \<Rightarrow> ustring" where
  "str_nat n = (if n < 10 then [48 + n] else str_nat (n div 10) @ [48 + n mod 10])"
  by pat_completeness auto
termination
  by (relation "measure id") auto

declare str_nat.simps [simp del]


section \<open>BookRAGProcessor.extract_text_from_pdf\<close>

text \<open>
  What reading one file does. \<open>open\<close> or \<open>PdfReader\<close> raises, or the reader has pages and
  \<open>extract_text()\<close> of each page returns its text or raises.
\<close>

datatype pdf = Unreadable exn | Pages "(exn + ustring) list"

text \<open>
  The loop over the pages, inside the \<open>try\<close>: the text read so far, and the exception that
  ended the loop, if one did.
\<close>

fun read_pages :: "(exn + ustring) list \<Rightarrow> ustring \<Rightarrow> ustring \<times> exn option" where
  "read_pages [] text = (text, None)"
| "read_pages (Inr page_text # pages) text = read_pages pages (text @ page_text @ [10])"
| "read_pages (Inl e # pages) text = (text, Some e)"

text \<open>The body of the \<open>try\<close>, from \<open>text = ""\<close> on.\<close>

definition read_pdf :: "pdf \<Rightarrow> ustring \<times> exn option" where
  "read_pdf f = (case f of Unreadable e \<Rightarrow> ([], Some e) | Pages pages \<Rightarrow> read_pages pages [])"


section \<open>BookRAGProcessor.process_all_books\<close>

record metadata =
  book :: ustring
  chunk_id :: nat
  source :: ustring



text \<open>
  What the processor works with: the folder and its listing, the files, the Unicode table
  of \<open>\w\<close>, the embedding model (\<open>'v\<close> is an embedding) and the \<open>add\<close> of the collection
  (\<open>'s\<close> is the collection's content), either of which may raise.
\<close>

record ('v, 's) env =
  books_folder_path :: ustring
  listdir :: "exn + ustring list"
  open_pdf :: "ustring \<Rightarrow> pdf"
  alnum_table :: "nat \<Rightarrow> bool"
  encode :: "ustring list \<Rightarrow> exn + 'v list"
  collection_add ::
    "'s \<Rightarrow> ustring list \<Rightarrow> 'v list \<Rightarrow> metadata list \<Rightarrow> ustring list \<Rightarrow> exn option \<times> 's"



definition book_name :: "ustring \<Rightarrow> ustring" where
  "book_name pdf_file = py_replace pdf_file (ustr ''.pdf'') []"






section \<open>query\_database\<close>

text \<open>
  What \<open>collection.query\<close> returns: under each key, a list with one list for every query
  embedding, or \<open>None\<close>. \<open>'f\<close> is a float.
\<close>

record 'f query_result =
  documents :: "ustring list list option"
  metadatas :: "metadata list list option"
  distances :: "'f list list option"

record 'f passage =
  content :: ustring
  passage_metadata :: metadata
  score :: 'f

text \<open>
  What the query works with: the client and \<open>get_collection\<close>, the loading of the model,
  the embedding of the query text, \<open>collection.query\<close>, any of which may raise, and the
  float subtraction \<open>1 - d\<close>. Of the interpreter it has the Unicode tables for the code
  points from 127 on (which are printable, and the value of a decimal digit) and the limit
  \<open>sys.get_int_max_str_digits()\<close>, where 0 is no limit.
\<close>

record ('v, 's, 'f) query_env =
  get_collection :: "exn + 's"
  load_model :: "exn option"
  encode_query :: "ustring \<Rightarrow> exn + 'v"
  collection_query :: "'s \<Rightarrow> 'v \<Rightarrow> int \<Rightarrow> exn + 'f query_result"
  one_minus :: "'f \<Rightarrow> 'f"
  printable_table :: "nat \<Rightarrow> bool"
  decimal_table :: "nat \<Rightarrow> nat option"
  int_max_str_digits :: nat

text \<open>The two streams of the process. A line of standard output is text or a JSON dump.\<close>

datatype 'r out_item = Line ustring | Json 'r

record 'r io =
  out :: "'r out_item list"
  err :: "ustring list"

text \<open>\<open>x[i]\<close> for an index from \<open>range\<close>, on a list and on a value that may be \<open>None\<close>.\<close>

definition get_item :: "'a list \<Rightarrow> nat \<Rightarrow> exn + 'a" where
  "get_item xs i =
     (if i < length xs then Inr (xs ! i) else Inl (Exn (ustr ''list index out of range'')))"

definition get_item_opt :: "'a list option \<Rightarrow> nat \<Rightarrow> exn + 'a" where
  "get_item_opt x i =
     (case x of
        None \<Rightarrow> Inl (Exn ([39] @ ustr ''NoneType'' @ [39] @ ustr '' object is not subscriptable''))
      | Some xs \<Rightarrow> get_item xs i)"

text \<open>One turn of the loop over the documents of the first query: the dictionary it appends.\<close>

definition format_one ::
    "('v, 's, 'f) query_env \<Rightarrow> 'f query_result \<Rightarrow> nat \<Rightarrow> exn + 'f passage" where
  "format_one env results i =
     (case get_item_opt (documents results) 0 of
        Inl e \<Rightarrow> Inl e
      | Inr docs \<Rightarrow>
     (case get_item docs i of
        Inl e \<Rightarrow> Inl e
      | Inr doc \<Rightarrow>
     (case get_item_opt (metadatas results) 0 of
        Inl e \<Rightarrow> Inl e
      | Inr metas \<Rightarrow>
     (case get_item metas i of
        Inl e \<Rightarrow> Inl e
      | Inr meta \<Rightarrow>
     (case get_item_opt (distances results) 0 of
        Inl e \<Rightarrow> Inl e
      | Inr dists \<Rightarrow>
     (case get_item dists i of
        Inl e \<Rightarrow> Inl e
      | Inr distance \<Rightarrow>
          Inr \<lparr>content = doc, passage_metadata = meta, score = one_minus env distance\<rparr>))))))"

fun format_loop ::
    "('v, 's, 'f) query_env \<Rightarrow> 'f query_result \<Rightarrow> nat list \<Rightarrow> 'f passage list
       \<Rightarrow> exn + 'f passage list" where
  "format_loop env results [] formatted_results = Inr formatted_results"
| "format_loop env results (i # rest) formatted_results =
     (case format_one env results i of
        Inl e \<Rightarrow> Inl e
      | Inr r \<Rightarrow> format_loop env results rest (formatted_results @ [r]))"

text \<open>
  The test \<open>results['documents'] and results['documents'][0]\<close>: \<open>None\<close> and the empty list
  are false.
\<close>

definition has_documents :: "'f query_result \<Rightarrow> bool" where
  "has_documents results =
     (case documents results of
        None \<Rightarrow> False
      | Some [] \<Rightarrow> False
      | Some (docs # _) \<Rightarrow> docs \<noteq> [])"

definition format_results ::
    "('v, 's, 'f) query_env \<Rightarrow> 'f query_result \<Rightarrow> exn + 'f passage list" where
  "format_results env results =
     (if has_documents results
      then format_loop env results [0..<length (hd (the (documents results)))] []
      else Inr [])"

text \<open>The body of the \<open>try\<close>.\<close>

definition query_body ::
    "('v, 's, 'f) query_env \<Rightarrow> ustring \<Rightarrow> int \<Rightarrow> exn + 'f passage list" where
  "query_body env query_text top_k =
     (case get_collection env of
        Inl e \<Rightarrow> Inl e
      | Inr coll \<Rightarrow>
     (case load_model env of
        Some e \<Rightarrow> Inl e
      | None \<Rightarrow>
     (case encode_query env query_text of
        Inl e \<Rightarrow> Inl e
      | Inr query_embedding \<Rightarrow>
     (case collection_query env coll query_embedding top_k of
        Inl e \<Rightarrow> Inl e
      | Inr results \<Rightarrow> format_results env results))))"

text \<open>
  The function with its handler: \<open>except Exception\<close> prints to \<open>sys.stderr\<close> and returns
  the empty list; an exception that is no \<open>Exception\<close> gets out.
\<close>

definition query_database ::
    "('v, 's, 'f) query_env \<Rightarrow> ustring \<Rightarrow> int \<Rightarrow> 'r io \<Rightarrow> (exn + 'f passage list) \<times> 'r io" where
  "query_database env query_text top_k w =
     (case query_body env query_text top_k of
        Inr formatted_results \<Rightarrow> (Inr formatted_results, w)
      | Inl (Exn msg) \<Rightarrow>
          (Inr [], w\<lparr>err := err w @ [ustr ''Error querying database: '' @ msg]\<rparr>)
      | Inl (BaseExn msg) \<Rightarrow> (Inl (BaseExn msg), w))"

section \<open>The command line of query\_database.py\<close>

text \<open>
  \<open>repr(s)\<close> of a string. The quote is the double quote when the string has a single quote
  and no double quote, and the single quote otherwise. The backslash and the quote are
  escaped by a backslash, tab, newline and carriage return are written \<open>\t\<close>, \<open>\n\<close>, \<open>\r\<close>,
  and any other character that is not printable is written in hexadecimal: \<open>\xNN\<close>,
  \<open>\uNNNN\<close> or \<open>\UNNNNNNNN\<close>.
\<close>

definition hex_char :: "nat \<Rightarrow> nat" where
  "hex_char d = (if d < 10 then 48 + d else 87 + d)"

fun hex_digits :: "nat \<Rightarrow> nat \<Rightarrow> ustring" where
  "hex_digits 0 n = []"
| "hex_digits (Suc width) n = hex_digits width (n div 16) @ [hex_char (n mod 16)]"

definition is_printable :: "(nat \<Rightarrow> bool) \<Rightarrow> nat \<Rightarrow> bool" where
  "is_printable tbl c = (if c < 127 then 32 \<le> c else tbl c)"

definition repr_char :: "(nat \<Rightarrow> bool) \<Rightarrow> nat \<Rightarrow> nat \<Rightarrow> ustring" where
  "repr_char tbl quote c =
     (if c = quote \<or> c = 92 then [92, c]
      else if c = 9 then [92, 116]
      else if c = 10 then [92, 110]
      else if c = 13 then [92, 114]
      else if is_printable tbl c then [c]
      else if c < 256 then [92, 120] @ hex_digits 2 c
      else if c < 65536 then [92, 117] @ hex_digits 4 c
      else [92, 85] @ hex_digits 8 c)"

definition py_repr :: "(nat \<Rightarrow> bool) \<Rightarrow> ustring \<Rightarrow> ustring" where
  "py_repr tbl s =
     (let quote = (if 39 \<in> set s \<and> 34 \<notin> set s then 34 else 39)
      in [quote] @ concat (map (repr_char tbl quote) s) @ [quote])"

text \<open>
  \<open>int(s)\<close> on a string, in base 10. First every character from 127 on is replaced: a
  Unicode space by the space, a decimal digit by its ASCII digit, any other by a question
  mark. Then ASCII whitespace (\<open>\t \n \v \f \r\<close> and the space) is skipped, a sign may
  follow, and the digits are scanned, with single underscores allowed between digits.
  The literal is invalid when it starts with an underscore, has two underscores in a row
  or one at the end of the digits, has no digit, or has anything but ASCII whitespace
  after the digits. More digits than the limit, for a literal of more than 640 digits, is
  an error of its own, raised once the digits have been scanned.
\<close>

definition is_digit :: "nat \<Rightarrow> bool" where
  "is_digit c = (48 \<le> c \<and> c \<le> 57)"

definition ascii_space :: "nat \<Rightarrow> bool" where
  "ascii_space c = ((9 \<le> c \<and> c \<le> 13) \<or> c = 32)"

definition to_ascii :: "(nat \<Rightarrow> nat option) \<Rightarrow> nat \<Rightarrow> nat" where
  "to_ascii dec c =
     (if c < 127 then c
      else if is_space c then 32
      else (case dec c of
              None \<Rightarrow> 63
            | Some d \<Rightarrow> if d < 10 then 48 + d else 63))"

text \<open>
  The scan of the digits, from the last character read, the value and the number of
  digits so far: the value, the number of digits and the rest of the string, or nothing
  when an underscore is out of place.
\<close>

fun scan_digits :: "ustring \<Rightarrow> nat \<Rightarrow> nat \<Rightarrow> nat \<Rightarrow> (nat \<times> nat \<times> ustring) option" where
  "scan_digits [] prev v n = (if prev = 95 then None else Some (v, n, []))"
| "scan_digits (c # cs) prev v n =
     (if c = 95 then (if prev = 95 then None else scan_digits cs 95 v n)
      else if is_digit c then scan_digits cs c (10 * v + (c - 48)) (Suc n)
      else if prev = 95 then None
      else Some (v, n, c # cs))"

definition py_int ::
    "(nat \<Rightarrow> bool) \<Rightarrow> (nat \<Rightarrow> nat option) \<Rightarrow> nat \<Rightarrow> ustring \<Rightarrow> exn + int" where
  "py_int printable dec limit s =
     (let invalid = Inl (Exn (ustr ''invalid literal for int() with base 10: ''
                                @ take 200 (py_repr printable s)));
          t = dropWhile ascii_space (map (to_ascii dec) s);
          negative = (take 1 t = [45]);
          body = (if take 1 t = [45] \<or> take 1 t = [43] then drop 1 t else t)
      in if take 1 body = [95] then invalid
         else (case scan_digits body 0 0 0 of
                 None \<Rightarrow> invalid
               | Some (v, n, rest) \<Rightarrow>
                   if n = 0 then invalid
                   else if 640 < n \<and> 0 < limit \<and> limit < n
                   then Inl (Exn (ustr ''Exceeds the limit ('' @ str_nat limit
                                    @ ustr '' digits) for integer string conversion: value has ''
                                    @ str_nat n
                                    @ ustr '' digits; use sys.set_int_max_str_digits() to increase the limit''))
                   else if dropWhile ascii_space rest \<noteq> [] then invalid
                   else Inr (if negative then - int v else int v)))"

text \<open>
  How the process ends: with an exit status, or with an exception nothing caught, which
  the interpreter reports on standard error.
\<close>

datatype ending = Exit int | Uncaught exn

text \<open>The block under \<open>if __name__ == "__main__"\<close>, from \<open>sys.argv\<close>.\<close>

definition query_main ::
    "('v, 's, 'f) query_env \<Rightarrow> ustring list \<Rightarrow> ending \<times> ('f passage list) io" where
  "query_main env argv =
     (let w = \<lparr>out = [], err = []\<rparr>
      in if length argv < 2
         then (Exit 1, w\<lparr>out := out w @ [Line (ustr ''Usage: python query_database.py <query> [top_k]'')]\<rparr>)
         else (case (if 2 < length argv
                     then py_int (printable_table env) (decimal_table env)
                            (int_max_str_digits env) (argv ! 2)
                     else Inr 5) of
                 Inl e \<Rightarrow> (Uncaught e, w)
               | Inr top_k \<Rightarrow>
                   (case query_database env (argv ! 1) top_k w of
                      (Inl e, w1) \<Rightarrow> (Uncaught e, w1)
                    | (Inr results, w1) \<Rightarrow> (Exit 0, w1\<lparr>out := out w1 @ [Json results]\<rparr>))))"

section \<open>Sample inputs\<close>

definition text460 :: ustring where "text460 = concat (replicate 460 (ustr ''a ''))"
definition text600 :: ustring where "text600 = concat (replicate 600 (ustr ''a ''))"
definition text1000 :: ustring where "text1000 = concat (replicate 1000 (ustr ''a ''))"
definition short_text :: ustring where "short_text = concat (replicate 30 (ustr ''ab ''))"

text \<open>What \<open>str.split()\<close> returns: non-empty words without whitespace.\<close>

definition is_word_list :: "ustring list \<Rightarrow> bool" where
  "is_word_list ws = list_all (\<lambda>w. w \<noteq> [] \<and> list_all (\<lambda>c. \<not> is_space c) w) ws"

text \<open>
  A folder of two books. The first has one page of thirty words and a second page whose
  extraction raises; the second cannot be opened. The embedding of a chunk is its length,
  and the collection is the list of the identifiers, documents and metadata added.
\<close>

definition page_words :: "ustring list" where
  "page_words = replicate 30 (ustr ''ab'')"

definition page_text :: ustring where
  "page_text = join [32] page_words"



text \<open>
  Query environments that fail at a chosen stage: 0, the collection does not exist; 1, the
  model does not load; 2, the embedding raises; 3, the store's query raises; 4, the
  collection is empty; 5, the store answers without metadata; from 6 on, one document at
  distance 0. An embedding is a unit value here and a float an integer. The tables are
  those of Latin-1 and of the Arabic-Indic digits.
\<close>

definition one_hit :: "int query_result" where
  "one_hit =
     \<lparr>documents = Some [[page_text]],
      metadatas = Some [[\<lparr>book = ustr ''a'', chunk_id = 0, source = ustr ''a.pdf''\<rparr>]],
      distances = Some [[0]]\<rparr>"

definition no_hits :: "int query_result" where
  "no_hits = \<lparr>documents = Some [[]], metadatas = Some [[]], distances = Some [[]]\<rparr>"

definition stage_env :: "nat \<Rightarrow> (unit, unit, int) query_env" where
  "stage_env stage =
     \<lparr>get_collection =
        (if stage = 0 then Inl (Exn (ustr ''Collection spiritual_books does not exist.''))
         else Inr ()),
      load_model = (if stage = 1 then Some (Exn (ustr ''model not found'')) else None),
      encode_query = (\<lambda>q. if stage = 2 then Inl (Exn (ustr ''out of memory'')) else Inr ()),
      collection_query =
        (\<lambda>c v k. if stage = 3 then Inl (Exn (ustr ''index unavailable''))
                 else if stage = 4 then Inr no_hits
                 else if stage = 5 then Inr (one_hit\<lparr>metadatas := None\<rparr>)
                 else Inr one_hit),
      one_minus = (\<lambda>d. 1 - d),
      printable_table = (\<lambda>c. (160 < c \<and> c < 256 \<and> c \<noteq> 173)
                              \<or> (1632 \<le> c \<and> c \<le> 1641)),
      decimal_table = (\<lambda>c. if 1632 \<le> c \<and> c \<le> 1641 then Some (c - 1632) else None),
      int_max_str_digits = 4300\<rparr>"

definition quiet :: "(int passage list) io" where
  "quiet = \<lparr>out = [], err = []\<rparr>"

text \<open>A folder with one file, which has \<open>.pdf\<close> inside its name too and cannot be opened.\<close>

definition inner_pdf :: "(nat, (ustring \<times> ustring \<times> metadata) list) env" where
  "inner_pdf =
     \<lparr>books_folder_path = ustr ''Books'',
      listdir = Inr [ustr ''a.pdf.b.pdf''],
      open_pdf = (\<lambda>path. Unreadable (Exn (ustr ''no such file''))),
      alnum_table = latin1_alnum,
      encode = (\<lambda>chunks. Inr (map length chunks)),
      collection_add = (\<lambda>c docs embeddings metas ids. (None, c @ zip ids (zip docs metas)))\<rparr>"

section \<open>Properties of the string operations and the chunker\<close>

subsection \<open>Strings\<close>

lemma strip_no_space:
  "s \<noteq> [] \<Longrightarrow> \<not> is_space (hd s) \<Longrightarrow> \<not> is_space (last s) \<Longrightarrow> strip s = s"
proof -
  assume a: "s \<noteq> []" "\<not> is_space (hd s)" "\<not> is_space (last s)"
  then have "dropWhile is_space s = s" by (cases s) simp_all
  moreover have "dropWhile is_space (rev s) = rev s"
    using a by (cases "rev s") (simp_all add: hd_rev)
  ultimately show ?thesis by (simp add: strip_def)
qed

lemma join_nonempty: "ws \<noteq> [] \<Longrightarrow> is_word_list ws \<Longrightarrow> join [32] ws \<noteq> []"
  by (induction "[32::nat]" ws rule: join.induct) (simp_all add: is_word_list_def)

lemma hd_join: "ws \<noteq> [] \<Longrightarrow> is_word_list ws \<Longrightarrow> hd (join [32] ws) = hd (hd ws)"
  by (induction "[32::nat]" ws rule: join.induct) (simp_all add: is_word_list_def)

lemma last_join: "ws \<noteq> [] \<Longrightarrow> is_word_list ws \<Longrightarrow> last (join [32] ws) = last (last ws)"
  by (induction "[32::nat]" ws rule: join.induct) (simp_all add: is_word_list_def join_nonempty)

lemma word_ends:
  "w \<noteq> [] \<Longrightarrow> list_all (\<lambda>c. \<not> is_space c) w \<Longrightarrow> \<not> is_space (hd w) \<and> \<not> is_space (last w)"
  by (simp add: list_all_iff)

lemma strip_join:
  assumes "ws \<noteq> []" "is_word_list ws"
  shows "strip (join [32] ws) = join [32] ws"
proof (rule strip_no_space)
  show "join [32] ws \<noteq> []" using assms by (rule join_nonempty)
  have h: "hd ws \<in> set ws" and l: "last ws \<in> set ws" using assms(1) by simp_all
  have a: "hd ws \<noteq> [] \<and> list_all (\<lambda>c. \<not> is_space c) (hd ws)"
    using h assms(2) by (simp add: is_word_list_def list_all_iff)
  have b: "last ws \<noteq> [] \<and> list_all (\<lambda>c. \<not> is_space c) (last ws)"
    using l assms(2) by (simp add: is_word_list_def list_all_iff)
  show "\<not> is_space (hd (join [32] ws))"
    using a word_ends [of "hd ws"] assms by (simp add: hd_join)
  show "\<not> is_space (last (join [32] ws))"
    using b word_ends [of "last ws"] assms by (simp add: last_join)
qed

lemma length_join: "is_word_list ws \<Longrightarrow> 2 * length ws \<le> length (join [32] ws) + 1"
proof (induction "[32::nat]" ws rule: join.induct)
  case 1 show ?case by simp
next
  case (2 w) then show ?case by (cases w) (simp_all add: is_word_list_def)
next
  case (3 w v ws) then show ?case by (cases w) (simp_all add: is_word_list_def)
qed

lemma split_ws_words: "is_word_list (split_ws s)"
proof (induction s rule: split_ws.induct)
  case 1 show ?case by (simp add: is_word_list_def)
next
  case (2 c cs)
  have "list_all (\<lambda>c. \<not> is_space c) (takeWhile (\<lambda>x. \<not> is_space x) cs)"
    by (auto simp: list_all_iff dest: set_takeWhileD)
  with 2 show ?case by (simp add: is_word_list_def)
qed

lemma split_ws_replicate:
  "w \<noteq> [] \<Longrightarrow> list_all (\<lambda>c. \<not> is_space c) w \<Longrightarrow>
     split_ws (concat (replicate n (w @ [32]))) = replicate n w"
proof (induction n)
  case 0 show ?case by simp
next
  case (Suc n)
  have sp: "is_space 32" by (simp add: is_space_def)
  have t: "takeWhile (\<lambda>x. \<not> is_space x) (v @ 32 # r) = v"
    and d: "dropWhile (\<lambda>x. \<not> is_space x) (v @ 32 # r) = 32 # r"
    if "list_all (\<lambda>c. \<not> is_space c) v" for v r
    using that sp by (induction v) simp_all
  obtain c v where w: "w = c # v" using Suc.prems(1) by (cases w) auto
  then have "\<not> is_space c" "list_all (\<lambda>c. \<not> is_space c) v" using Suc.prems(2) by simp_all
  then show ?case using Suc sp by (simp add: w t d)
qed

lemma is_word_list_take: "is_word_list ws \<Longrightarrow> is_word_list (take n ws)"
  by (auto simp: is_word_list_def list_all_iff dest: in_set_takeD)

lemma is_word_list_drop: "is_word_list ws \<Longrightarrow> is_word_list (drop n ws)"
  by (auto simp: is_word_list_def list_all_iff dest: in_set_dropD)

text \<open>A join of at least 26 words is longer than 50 characters, also when stripped.\<close>

lemma long_join:
  assumes "is_word_list ws" "26 \<le> length ws"
  shows "50 < length (strip (join [32] ws))"
proof -
  have "ws \<noteq> []" using assms(2) by auto
  then have "strip (join [32] ws) = join [32] ws" using assms(1) by (rule strip_join)
  moreover have "2 * length ws \<le> length (join [32] ws) + 1" using assms(1) by (rule length_join)
  ultimately show ?thesis using assms(2) by simp
qed

subsection \<open>Ranges and slices\<close>

lemma range_down_empty: "i \<le> stop \<Longrightarrow> range_down i stop step = []"
  by (simp add: range_down.simps)

lemma range_up_map:
  "0 < step \<Longrightarrow>
     range_up i stop step = map (\<lambda>k. i + int k * step) [0..<nat (- ((i - stop) div step))]"
proof (induction i stop step rule: range_up.induct)
  case (1 i stop step)
  show ?case
  proof (cases "i < stop")
    case False
    then have "(i - stop) div step \<ge> 0" using 1(2) by (simp add: pos_imp_zdiv_nonneg_iff)
    then show ?thesis using False 1(2) by (simp add: range_up.simps)
  next
    case True
    let ?n = "nat (- ((i - stop) div step))"
    let ?m = "nat (- ((i + step - stop) div step))"
    have e: "(i + step - stop) div step = (i - stop) div step + 1"
    proof -
      have "i + step - stop = (i - stop) + step" by simp
      then show ?thesis using 1(2) by (simp only: div_add_self2)
    qed
    have neg: "(i - stop) div step < 0"
      using True 1(2) by (simp add: neg_imp_zdiv_neg_iff div_neg_pos_less0)
    then have n: "?n = Suc ?m" using e by simp
    have "range_up i stop step = i # range_up (i + step) stop step"
      using True 1(2) by (subst range_up.simps) simp
    also have "\<dots> = i # map (\<lambda>k. i + step + int k * step) [0..<?m]"
      using 1(1) True 1(2) by simp
    also have "\<dots> = map (\<lambda>k. i + int k * step) [0..<Suc ?m]"
      by (simp add: upt_rec[of 0] map_Suc_upt[symmetric] algebra_simps del: upt_Suc)
    finally show ?thesis using n by simp
  qed
qed

lemma py_range_pos:
  "0 < step \<Longrightarrow>
     py_range 0 (int n) step = Inr (map (\<lambda>k. int k * step) [0..<nat (- ((- int n) div step))])"
  by (simp add: py_range_def range_up_map)

lemma py_slice_window:
  "0 \<le> i \<Longrightarrow> 0 \<le> n \<Longrightarrow> py_slice xs i (i + n) = take (nat n) (drop (nat i) xs)"
  by (auto simp: py_slice_def slice_index_def Let_def min_def nat_add_distrib)

lemma ceil_words: "\<lceil>real n / 450\<rceil> = - ((- int n) div 450)"
proof -
  have "real n / 450 = of_int (int n) / of_int 450" by simp
  then show ?thesis by (simp only: ceiling_divide_eq_div)
qed

subsection \<open>The chunker\<close>

lemma chunk_loop_filter:
  "chunk_loop words cs starts acc =
     acc @ filter (\<lambda>c. 50 < length (strip c))
             (map (\<lambda>i. join [32] (py_slice words i (i + cs))) starts)"
  by (induction starts arbitrary: acc) (simp_all add: Let_def)

lemma chunk_text_raw_windows:
  "chunk_text text cs ov =
     (case raw_windows text cs ov of
        Inl e \<Rightarrow> Inl e
      | Inr ws \<Rightarrow> Inr (filter (\<lambda>c. 50 < length (strip c)) (map (join [32]) ws)))"
  by (simp add: chunk_text_def raw_windows_def Let_def chunk_loop_filter comp_def
      split: sum.splits)

lemma raw_windows_500_50:
  "raw_windows text 500 50 =
     Inr (map (\<lambda>k. take 500 (drop (450 * k) (split_ws text)))
            [0..<nat \<lceil>real (length (split_ws text)) / (500 - 50)\<rceil>])"
proof -
  have s: "py_slice ws (int k * 450) (int k * 450 + 500) = take 500 (drop (450 * k) ws)"
    for k and ws :: "ustring list"
    using py_slice_window [of "int k * 450" 500 ws] by (simp add: nat_mult_distrib mult.commute)
  show ?thesis
    by (simp add: raw_windows_def Let_def py_range_pos ceil_words s comp_def)
qed

lemma chunk_text_step_le_0:
  "chunk_size \<le> overlap \<Longrightarrow>
     chunk_text text chunk_size overlap =
       (if overlap = chunk_size then Inl (Exn (ustr ''range() arg 3 must not be zero''))
        else Inr [])"
  by (simp add: chunk_text_def Let_def py_range_def range_down_empty)

lemma split_ws_a: "split_ws (concat (replicate n (ustr ''a ''))) = replicate n (ustr ''a'')"
  using split_ws_replicate [of "ustr ''a''" n] by (simp add: ustr_def is_space_def)

lemma split_ws_short: "split_ws short_text = replicate 30 (ustr ''ab'')"
  using split_ws_replicate [of "ustr ''ab''" 30] by (simp add: short_text_def ustr_def is_space_def)

lemma upt_2: "[0..<2] = [0, Suc 0]"
  by (simp add: upt_rec)

lemma chunk_text_short:
  "chunk_text short_text 500 50 = Inr [join [32] (replicate 30 (ustr ''ab''))]"
proof -
  have "is_word_list (replicate 30 (ustr ''ab''))"
    using split_ws_words [of short_text] by (simp only: split_ws_short)
  then have "50 < length (strip (join [32] (replicate 30 (ustr ''ab''))))"
    by (rule long_join) simp
  moreover have "\<lceil>real (30::nat) / 450\<rceil> = 1"
    by (simp only: ceil_words)
  then have "nat \<lceil>real (length (split_ws short_text)) / (500 - 50)\<rceil> = 1"
    by (simp add: split_ws_short)
  ultimately show ?thesis
    by (simp add: chunk_text_raw_windows raw_windows_500_50 split_ws_short)
qed

text \<open>Both windows of a text of 600 words pass the length filter.\<close>

lemma words_600_pass_filter:
  assumes "length (split_ws text) = 600"
  shows "50 < length (strip (join [32] (py_slice (split_ws text) 0 500)))"
    and "50 < length (strip (join [32] (py_slice (split_ws text) 450 600)))"
proof -
  let ?ws = "split_ws text"
  have a: "py_slice ?ws 0 500 = take 500 ?ws"
    using py_slice_window [of 0 500 ?ws] by simp
  have b: "py_slice ?ws 450 600 = drop 450 ?ws"
    using py_slice_window [of 450 150 ?ws] assms(1) by simp
  show "50 < length (strip (join [32] (py_slice (split_ws text) 0 500)))"
    unfolding a using assms by (intro long_join is_word_list_take split_ws_words) simp
  show "50 < length (strip (join [32] (py_slice (split_ws text) 450 600)))"
    unfolding b using assms by (intro long_join is_word_list_drop split_ws_words) simp
qed

section \<open>Properties of the normalizer\<close>

lemma set_strip: "set (strip s) \<subseteq> set s"
proof -
  have "set (strip s) = set (dropWhile is_space (rev (dropWhile is_space s)))"
    by (simp add: strip_def)
  also have "\<dots> \<subseteq> set (rev (dropWhile is_space s))" by (auto dest: set_dropWhileD)
  also have "\<dots> \<subseteq> set s" by (auto dest: set_dropWhileD)
  finally show ?thesis .
qed

lemma strip_trimmed:
  "strip s = [] \<or> (\<not> is_space (hd (strip s)) \<and> \<not> is_space (last (strip s)))"
proof (cases "strip s = []")
  case True then show ?thesis by simp
next
  case False
  let ?a = "dropWhile is_space s"
  let ?b = "dropWhile is_space (rev ?a)"
  have b: "?b \<noteq> []" using False by (simp add: strip_def)
  then have l: "\<not> is_space (hd ?b)" by (rule hd_dropWhile)
  have a: "?a \<noteq> []"
  proof
    assume "?a = []"
    then have "?b = []" by (simp only: rev.simps dropWhile.simps)
    with b show False by (rule notE)
  qed
  then have h: "\<not> is_space (hd ?a)" by (rule hd_dropWhile)
  have "rev ?a = takeWhile is_space (rev ?a) @ ?b" by simp
  then have "last (rev ?a) = last ?b" using b by (metis last_appendR)
  then have "last ?b = hd ?a" using a by (simp add: last_rev)
  then have "hd (strip s) = hd ?a" using b by (simp add: strip_def hd_rev)
  moreover have "last (strip s) = hd ?b" using b by (simp add: strip_def last_rev)
  ultimately show ?thesis using h l by simp
qed

lemma collapse_ws_spaces: "c \<in> set (collapse_ws s) \<Longrightarrow> is_space c \<Longrightarrow> c = 32"
  by (induction s rule: collapse_ws.induct) (auto split: if_splits)

lemma clean_text_trimmed:
  "clean_text tbl text = [] \<or>
     (\<not> is_space (hd (clean_text tbl text)) \<and> \<not> is_space (last (clean_text tbl text)))"
  unfolding clean_text_def Let_def by (rule strip_trimmed)

lemma clean_text_allowed: "c \<in> set (clean_text tbl text) \<Longrightarrow> allowed tbl c"
  using set_strip by (fastforce simp: clean_text_def Let_def)

lemma clean_text_spaces: "c \<in> set (clean_text tbl text) \<Longrightarrow> is_space c \<Longrightarrow> c = 32"
  using set_strip collapse_ws_spaces by (fastforce simp: clean_text_def Let_def)

lemma clean_text_empty: "clean_text tbl [] = []"
  by (simp add: clean_text_def strip_def)

section \<open>The normalizer and the chunker on a line of words\<close>










section \<open>Properties of the extraction and of the run\<close>


lemma read_pages_append:
  "read_pages (map Inr texts @ rest) acc = read_pages rest (acc @ concat (map (\<lambda>t. t @ [10]) texts))"
  by (induction texts arbitrary: acc) simp_all

lemma read_pdf_failure:
  "read_pdf (Pages (map Inr texts @ Inl e # later)) = (concat (map (\<lambda>t. t @ [10]) texts), Some e)"
  "read_pdf (Unreadable e) = ([], Some e)"
  by (simp_all add: read_pdf_def read_pages_append)



subsection \<open>The run on the folder of two books\<close>









text \<open>
  \<open>book_name\<close> removes every occurrence of \<open>.pdf\<close>: for a name with no other dot it is
  the name without the extension, and for \<open>a.pdf.b.pdf\<close> it is \<open>a.b\<close>.
\<close>

lemma book_name_stem: "46 \<notin> set stem \<Longrightarrow> book_name (stem @ ustr ''.pdf'') = stem"
  by (induction stem) (auto simp: book_name_def py_replace_def ustr_def)

lemma book_name_inner: "book_name (ustr ''a.pdf.b.pdf'') = ustr ''a.b''"
  by (simp add: book_name_def py_replace_def ustr_def)

section \<open>Properties of the query\<close>

lemma query_database_caught:
  "query_body env q k = Inl (Exn msg) \<Longrightarrow>
     query_database env q k w
       = (Inr [], w\<lparr>err := err w @ [ustr ''Error querying database: '' @ msg]\<rparr>)"
  by (simp add: query_database_def)

lemma query_database_out: "out (snd (query_database env q k w)) = out w"
  by (simp add: query_database_def split: sum.splits exn.splits)

lemma query_database_no_exception: "fst (query_database env q k w) \<noteq> Inl (Exn m)"
  by (simp add: query_database_def split: sum.splits exn.splits)

lemma stage_env_simps:
  "get_collection (stage_env n)
     = (if n = 0 then Inl (Exn (ustr ''Collection spiritual_books does not exist.'')) else Inr ())"
  "load_model (stage_env n) = (if n = 1 then Some (Exn (ustr ''model not found'')) else None)"
  "encode_query (stage_env n) q = (if n = 2 then Inl (Exn (ustr ''out of memory'')) else Inr ())"
  "collection_query (stage_env n) c v k
     = (if n = 3 then Inl (Exn (ustr ''index unavailable''))
        else if n = 4 then Inr no_hits
        else if n = 5 then Inr (one_hit\<lparr>metadatas := None\<rparr>)
        else Inr one_hit)"
  "one_minus (stage_env n) d = 1 - d"
  by (simp_all add: stage_env_def)

lemma format_one_hit:
  "format_results (stage_env n) (one_hit\<lparr>metadatas := None\<rparr>)
     = Inl (Exn ([39] @ ustr ''NoneType'' @ [39] @ ustr '' object is not subscriptable''))"
  "format_results (stage_env n) one_hit
     = Inr [\<lparr>content = page_text,
             passage_metadata = \<lparr>book = ustr ''a'', chunk_id = 0, source = ustr ''a.pdf''\<rparr>,
             score = 1\<rparr>]"
  "\<not> has_documents no_hits"
  by (simp_all add: format_results_def has_documents_def one_hit_def no_hits_def format_one_def
      get_item_opt_def get_item_def stage_env_simps)

text \<open>
  With a query and a \<open>top_k\<close> that is absent or an integer literal, the JSON dump of the
  result list is all of standard output, whatever the query did short of an exception
  that is no \<open>Exception\<close>.
\<close>

lemma query_main_json:
  fixes env :: "('v, 's, 'f) query_env"
  assumes "2 \<le> length argv"
    and "(if 2 < length argv
          then py_int (printable_table env) (decimal_table env) (int_max_str_digits env) (argv ! 2)
          else Inr 5) = Inr top_k"
    and "query_database env (argv ! 1) top_k \<lparr>out = [], err = []\<rparr> = (Inr results, w)"
  shows "query_main env argv = (Exit 0, w\<lparr>out := [Json results]\<rparr>)"
proof -
  let ?w0 = "\<lparr>out = [], err = []\<rparr> :: ('f passage list) io"
  have "out (snd (query_database env (argv ! 1) top_k ?w0)) = out ?w0"
    by (rule query_database_out)
  then have "out w = []" unfolding assms(3) by simp
  then show ?thesis using assms by (simp add: query_main_def Let_def)
qed

text \<open>\<open>int\<close> on some literals, for any tables and, in the last one, a limit of 4300 digits.\<close>

lemma py_int_samples:
  "py_int printable dec limit (ustr ''3'') = Inr 3"
  "py_int printable dec limit (ustr '' -1_0 '') = Inr (- 10)"
  "py_int printable dec limit (ustr ''0'') = Inr 0"
  "py_int printable dec limit (ustr ''2.5'')
     = Inl (Exn (ustr ''invalid literal for int() with base 10: '' @ [39] @ ustr ''2.5'' @ [39]))"
  "py_int printable dec limit (ustr ''1__0'')
     = Inl (Exn (ustr ''invalid literal for int() with base 10: '' @ [39] @ ustr ''1__0'' @ [39]))"
  by (simp_all add: py_int_def py_repr_def repr_char_def is_printable_def Let_def ustr_def
      to_ascii_def ascii_space_def is_digit_def)

section \<open>Claims about the chunker\<close>

text \<open>
  Claim C1, as the code has it. For a text of \<open>L\<close> words, \<open>chunk_text\<close> with
  \<open>chunk_size = 500\<close> and \<open>overlap = 50\<close> takes exactly \<open>\<lceil>L / (chunk_size - overlap)\<rceil>\<close>
  raw windows before the length filter; window \<open>k\<close> is \<open>words[450 k : 450 k + 500]\<close>, of
  \<open>min(500, L - 450 k)\<close> words, and every window except possibly the last two holds exactly
  \<open>chunk_size\<close> words.
\<close>

theorem chunk_text_windows:
  "raw_windows text 500 50 =
     Inr (map (\<lambda>k. take 500 (drop (450 * k) (split_ws text)))
            [0..<nat \<lceil>real (length (split_ws text)) / (500 - 50)\<rceil>])
   \<and> (\<forall>k. length (take 500 (drop (450 * k) (split_ws text)))
            = min 500 (length (split_ws text) - 450 * k))
   \<and> (\<forall>k. k + 2 < nat \<lceil>real (length (split_ws text)) / (500 - 50)\<rceil> \<longrightarrow>
          length (take 500 (drop (450 * k) (split_ws text))) = 500)"
proof (intro conjI allI impI)
  show "raw_windows text 500 50 =
     Inr (map (\<lambda>k. take 500 (drop (450 * k) (split_ws text)))
            [0..<nat \<lceil>real (length (split_ws text)) / (500 - 50)\<rceil>])"
    by (rule raw_windows_500_50)
next
  fix k
  show "length (take 500 (drop (450 * k) (split_ws text)))
          = min 500 (length (split_ws text) - 450 * k)"
    by simp
next
  fix k
  let ?L = "length (split_ws text)"
  assume "k + 2 < nat \<lceil>real ?L / (500 - 50)\<rceil>"
  then have "int k + 2 < - ((- int ?L) div 450)" by (simp add: ceil_words)
  then have "450 * k + 500 \<le> ?L" by linarith
  then show "length (take 500 (drop (450 * k) (split_ws text))) = 500" by simp
qed

text \<open>
  A text of 1000 words has three windows, and the first holds 500 words.
\<close>

theorem chunk_text_windows_witness:
  "nat \<lceil>real (length (split_ws text1000)) / (500 - 50)\<rceil> = 3
   \<and> length (take 500 (drop (450 * 0) (split_ws text1000))) = 500"
proof -
  have w: "split_ws text1000 = replicate 1000 (ustr ''a'')"
    by (simp add: text1000_def split_ws_a)
  have c: "nat \<lceil>real (length (split_ws text1000)) / (500 - 50)\<rceil> = 3"
    by (simp add: w ceil_words)
  then have "0 + 2 < nat \<lceil>real (length (split_ws text1000)) / (500 - 50)\<rceil>" by simp
  with chunk_text_windows [of text1000]
  have "length (take 500 (drop (450 * 0) (split_ws text1000))) = 500"
    by blast
  with c show ?thesis by simp
qed

text \<open>
  Claim C1 as stated fails on a text of 460 words: the loop takes two windows, of 460 and
  of 10 words, where \<open>\<lceil>(L - overlap) / (chunk_size - overlap)\<rceil>\<close> is 1 and the first of two
  windows would hold 500 words.
\<close>

theorem chunk_text_windows_counterexample:
  "raw_windows text460 500 50 = Inr [replicate 460 (ustr ''a''), replicate 10 (ustr ''a'')]
   \<and> length (split_ws text460) = 460
   \<and> \<lceil>(real 460 - 50) / (500 - 50)\<rceil> = (1::int)"
proof -
  have w: "split_ws text460 = replicate 460 (ustr ''a'')"
    by (simp add: text460_def split_ws_a)
  have c: "nat \<lceil>real (460::nat) / (500 - 50)\<rceil> = 2" by (simp add: ceil_words)
  have "raw_windows text460 500 50 = Inr [replicate 460 (ustr ''a''), replicate 10 (ustr ''a'')]"
    by (simp add: raw_windows_500_50 w c upt_2)
  then show ?thesis using w by simp
qed

text \<open>
  Claim C9. Every chunk in the list \<open>chunk_text\<close> returns has a trimmed length of more
  than 50 characters, for every text and all parameters.
\<close>

theorem chunk_text_filter:
  "chunk_text text chunk_size overlap = Inr chunks \<Longrightarrow> c \<in> set chunks \<Longrightarrow>
     50 < length (strip c)"
  by (auto simp: chunk_text_def Let_def chunk_loop_filter split: sum.splits)

text \<open>
  The one chunk of a text of 30 two-letter words.
\<close>

theorem chunk_text_filter_witness:
  "chunk_text short_text 500 50 = Inr [join [32] (replicate 30 (ustr ''ab''))]
   \<and> join [32] (replicate 30 (ustr ''ab'')) \<in> set [join [32] (replicate 30 (ustr ''ab''))]
   \<and> 50 < length (strip (join [32] (replicate 30 (ustr ''ab''))))"
proof -
  have m: "join [32] (replicate 30 (ustr ''ab'')) \<in> set [join [32] (replicate 30 (ustr ''ab''))]"
    by simp
  from chunk_text_filter [OF chunk_text_short m] chunk_text_short m show ?thesis by blast
qed

text \<open>
  Claim C4, as the code has it. With \<open>overlap \<ge> chunk_size\<close> the function never loops:
  for \<open>overlap = chunk_size\<close> the \<open>range\<close> call raises \<open>ValueError\<close> (step zero) before any
  chunk is made, and for \<open>overlap > chunk_size\<close> the range is empty and the function returns
  the empty list without an error.
\<close>

theorem chunk_text_bad_step:
  "chunk_size \<le> overlap \<Longrightarrow>
     chunk_text text chunk_size overlap =
       (if overlap = chunk_size then Inl (Exn (ustr ''range() arg 3 must not be zero''))
        else Inr [])"
  by (rule chunk_text_step_le_0)

text \<open>
  Both cases on a text of 30 words.
\<close>

theorem chunk_text_bad_step_witness:
  "(500::int) \<le> 600 \<and> chunk_text short_text 500 600 = Inr []
   \<and> (500::int) \<le> 500
   \<and> chunk_text short_text 500 500 = Inl (Exn (ustr ''range() arg 3 must not be zero''))"
  using chunk_text_bad_step [of 500 600 short_text] chunk_text_bad_step [of 500 500 short_text]
  by simp

text \<open>
  Claim C4 as stated fails for \<open>chunk_size = 500\<close>, \<open>overlap = 600\<close>: no error is raised and
  nothing is clamped; the text, which gives one chunk under the default parameters, gives
  none.
\<close>

theorem chunk_text_bad_step_counterexample:
  "chunk_text short_text 500 600 = Inr []
   \<and> chunk_text short_text 500 50 = Inr [join [32] (replicate 30 (ustr ''ab''))]"
  using chunk_text_step_le_0 [of 500 600 short_text] chunk_text_short by simp

text \<open>
  Claim C8. For a text of exactly 600 words, \<open>chunk_text\<close> with \<open>chunk_size = 500\<close> and
  \<open>overlap = 50\<close> returns exactly two chunks, the join of \<open>words[0:500]\<close> and the join of
  \<open>words[450:600]\<close> (150 words), provided both are longer than 50 characters when trimmed.
\<close>

theorem chunk_text_600_words:
  assumes "length (split_ws text) = 600"
    and "50 < length (strip (join [32] (py_slice (split_ws text) 0 500)))"
    and "50 < length (strip (join [32] (py_slice (split_ws text) 450 600)))"
  shows "chunk_text text 500 50 =
           Inr [join [32] (py_slice (split_ws text) 0 500),
                join [32] (py_slice (split_ws text) 450 600)]
         \<and> length (py_slice (split_ws text) 0 500) = 500
         \<and> length (py_slice (split_ws text) 450 600) = 150"
proof -
  let ?ws = "split_ws text"
  have c: "nat \<lceil>real (length ?ws) / (500 - 50)\<rceil> = 2"
    using assms(1) by (simp add: ceil_words)
  have a: "py_slice ?ws 0 500 = take 500 ?ws"
    using py_slice_window [of 0 500 ?ws] by simp
  have b: "py_slice ?ws 450 600 = drop 450 ?ws"
    using py_slice_window [of 450 150 ?ws] assms(1) by simp
  have "raw_windows text 500 50 = Inr [take 500 ?ws, drop 450 ?ws]"
    using assms(1) by (simp add: raw_windows_500_50 c upt_2)
  then show ?thesis
    using assms by (simp add: chunk_text_raw_windows a b)
qed

text \<open>
  A text of 600 one-letter words.
\<close>

theorem chunk_text_600_words_witness:
  "length (split_ws text600) = 600
   \<and> 50 < length (strip (join [32] (py_slice (split_ws text600) 0 500)))
   \<and> 50 < length (strip (join [32] (py_slice (split_ws text600) 450 600)))
   \<and> chunk_text text600 500 50 =
           Inr [join [32] (py_slice (split_ws text600) 0 500),
                join [32] (py_slice (split_ws text600) 450 600)]
   \<and> length (py_slice (split_ws text600) 0 500) = 500
   \<and> length (py_slice (split_ws text600) 450 600) = 150"
proof -
  have l: "length (split_ws text600) = 600"
    by (simp add: text600_def split_ws_a)
  note f = words_600_pass_filter [OF l]
  from chunk_text_600_words [OF l f] l f show ?thesis by blast
qed

section \<open>Claims about the normalizer\<close>

text \<open>
  Claim C2 fails on the code. The characters outside the allow-list are removed after the
  whitespace runs are collapsed, so a removed character that stood between two spaces
  leaves two spaces, which a second pass collapses: \<open>clean_text\<close> of \<open>"a @ b"\<close> is
  \<open>"a  b"\<close>, and \<open>clean_text\<close> of that is \<open>"a b"\<close>.
\<close>

theorem clean_text_second_pass:
  "clean_text tbl (ustr ''a @ b'') = ustr ''a  b''
   \<and> clean_text tbl (clean_text tbl (ustr ''a @ b'')) = ustr ''a b''"
  by (simp add: clean_text_def ustr_def allowed_def is_word_def is_alnum_def is_space_def
      is_punct_def strip_def)

text \<open>
  Claim C3 fails on the code in its first part, by the same order of the two
  substitutions: the output for \<open>"x # y"\<close> holds a run of two spaces. The other parts hold
  (\<open>clean_text_allowed\<close>, \<open>clean_text_trimmed\<close>, \<open>clean_text_empty\<close>), and the only
  whitespace character of an output is the space (\<open>clean_text_spaces\<close>).
\<close>

theorem clean_text_space_run:
  "clean_text tbl (ustr ''x # y'') = [120, 32, 32, 121] \<and> is_space 32"
  by (simp add: clean_text_def ustr_def allowed_def is_word_def is_alnum_def is_space_def
      is_punct_def strip_def)

section \<open>Claims about the ingestion\<close>






section \<open>Claims about the query\<close>

text \<open>
  Claim C6. When the collection does not exist (\<open>get_collection\<close> raises), or the model,
  the embedding, the store's query or the formatting of its answer raises an \<open>Exception\<close>,
  \<open>query_database\<close> returns the empty list and writes the message to standard error;
  when the store answers with no documents, as for an empty collection, it returns the
  empty list and writes nothing. It writes nothing to standard output in any case, and no
  \<open>Exception\<close> ever reaches the caller.
\<close>

theorem query_database_failure_empty:
  "(get_collection env = Inl (Exn msg) \<longrightarrow>
      query_database env q k w
        = (Inr [], w\<lparr>err := err w @ [ustr ''Error querying database: '' @ msg]\<rparr>))
   \<and> (get_collection env = Inr coll \<and> load_model env = Some (Exn msg) \<longrightarrow>
      query_database env q k w
        = (Inr [], w\<lparr>err := err w @ [ustr ''Error querying database: '' @ msg]\<rparr>))
   \<and> (get_collection env = Inr coll \<and> load_model env = None
        \<and> encode_query env q = Inl (Exn msg) \<longrightarrow>
      query_database env q k w
        = (Inr [], w\<lparr>err := err w @ [ustr ''Error querying database: '' @ msg]\<rparr>))
   \<and> (get_collection env = Inr coll \<and> load_model env = None
        \<and> encode_query env q = Inr v \<and> collection_query env coll v k = Inl (Exn msg) \<longrightarrow>
      query_database env q k w
        = (Inr [], w\<lparr>err := err w @ [ustr ''Error querying database: '' @ msg]\<rparr>))
   \<and> (get_collection env = Inr coll \<and> load_model env = None
        \<and> encode_query env q = Inr v \<and> collection_query env coll v k = Inr results
        \<and> format_results env results = Inl (Exn msg) \<longrightarrow>
      query_database env q k w
        = (Inr [], w\<lparr>err := err w @ [ustr ''Error querying database: '' @ msg]\<rparr>))
   \<and> (get_collection env = Inr coll \<and> load_model env = None
        \<and> encode_query env q = Inr v \<and> collection_query env coll v k = Inr results
        \<and> \<not> has_documents results \<longrightarrow>
      query_database env q k w = (Inr [], w))
   \<and> out (snd (query_database env q k w)) = out w
   \<and> (\<forall>m. fst (query_database env q k w) \<noteq> Inl (Exn m))"
  by (simp add: query_database_def query_body_def format_results_def
      split: sum.splits exn.splits option.splits)

text \<open>One environment for each way of failing, and the empty collection.\<close>

theorem query_database_failure_empty_witness:
  "get_collection (stage_env 0) = Inl (Exn (ustr ''Collection spiritual_books does not exist.''))
   \<and> query_database (stage_env 0) (ustr ''hello'') 5 quiet
       = (Inr [], quiet\<lparr>err := err quiet @ [ustr ''Error querying database: ''
                                           @ ustr ''Collection spiritual_books does not exist.'']\<rparr>)
   \<and> load_model (stage_env 1) = Some (Exn (ustr ''model not found''))
   \<and> query_database (stage_env 1) (ustr ''hello'') 5 quiet
       = (Inr [], quiet\<lparr>err := err quiet @ [ustr ''Error querying database: ''
                                           @ ustr ''model not found'']\<rparr>)
   \<and> encode_query (stage_env 2) (ustr ''hello'') = Inl (Exn (ustr ''out of memory''))
   \<and> query_database (stage_env 2) (ustr ''hello'') 5 quiet
       = (Inr [], quiet\<lparr>err := err quiet @ [ustr ''Error querying database: ''
                                           @ ustr ''out of memory'']\<rparr>)
   \<and> collection_query (stage_env 3) () () 5 = Inl (Exn (ustr ''index unavailable''))
   \<and> query_database (stage_env 3) (ustr ''hello'') 5 quiet
       = (Inr [], quiet\<lparr>err := err quiet @ [ustr ''Error querying database: ''
                                           @ ustr ''index unavailable'']\<rparr>)
   \<and> collection_query (stage_env 4) () () 5 = Inr no_hits \<and> \<not> has_documents no_hits
   \<and> query_database (stage_env 4) (ustr ''hello'') 5 quiet = (Inr [], quiet)
   \<and> format_results (stage_env 5) (one_hit\<lparr>metadatas := None\<rparr>)
       = Inl (Exn ([39] @ ustr ''NoneType'' @ [39] @ ustr '' object is not subscriptable''))
   \<and> query_database (stage_env 5) (ustr ''hello'') 5 quiet
       = (Inr [], quiet\<lparr>err := err quiet @ [ustr ''Error querying database: ''
                                           @ [39] @ ustr ''NoneType'' @ [39]
                                           @ ustr '' object is not subscriptable'']\<rparr>)"
proof -
  note s = stage_env_simps format_one_hit
  have "query_database (stage_env 0) (ustr ''hello'') 5 quiet
       = (Inr [], quiet\<lparr>err := err quiet @ [ustr ''Error querying database: ''
                                           @ ustr ''Collection spiritual_books does not exist.'']\<rparr>)"
    using query_database_failure_empty [of "stage_env 0" "ustr ''Collection spiritual_books does not exist.''"
                  "ustr ''hello''" 5 quiet]
    by (simp add: s)
  moreover have "query_database (stage_env 1) (ustr ''hello'') 5 quiet
       = (Inr [], quiet\<lparr>err := err quiet @ [ustr ''Error querying database: ''
                                           @ ustr ''model not found'']\<rparr>)"
    using query_database_failure_empty [of "stage_env 1" "ustr ''model not found''" "ustr ''hello''" 5 quiet "()"]
    by (simp add: s)
  moreover have "query_database (stage_env 2) (ustr ''hello'') 5 quiet
       = (Inr [], quiet\<lparr>err := err quiet @ [ustr ''Error querying database: ''
                                           @ ustr ''out of memory'']\<rparr>)"
    using query_database_failure_empty [of "stage_env 2" "ustr ''out of memory''" "ustr ''hello''" 5 quiet "()"]
    by (simp add: s)
  moreover have "query_database (stage_env 3) (ustr ''hello'') 5 quiet
       = (Inr [], quiet\<lparr>err := err quiet @ [ustr ''Error querying database: ''
                                           @ ustr ''index unavailable'']\<rparr>)"
    using query_database_failure_empty [of "stage_env 3" "ustr ''index unavailable''" "ustr ''hello''" 5 quiet "()" "()"]
    by (simp add: s)
  moreover have "query_database (stage_env 4) (ustr ''hello'') 5 quiet = (Inr [], quiet)"
    using query_database_failure_empty [of "stage_env 4" _ "ustr ''hello''" 5 quiet "()" "()" no_hits]
    by (simp add: s)
  moreover have "query_database (stage_env 5) (ustr ''hello'') 5 quiet
       = (Inr [], quiet\<lparr>err := err quiet @ [ustr ''Error querying database: ''
                                           @ [39] @ ustr ''NoneType'' @ [39]
                                           @ ustr '' object is not subscriptable'']\<rparr>)"
    using query_database_failure_empty [of "stage_env 5" "[39] @ ustr ''NoneType'' @ [39] @ ustr '' object is not subscriptable''"
                  "ustr ''hello''" 5 quiet "()" "()" "one_hit\<lparr>metadatas := None\<rparr>"]
    by (simp add: s)
  ultimately show ?thesis by (simp add: s)
qed

text \<open>
  Claim C7 fails on the code. The conversion \<open>int(sys.argv[2])\<close> stands outside every
  \<open>try\<close>: with \<open>top_k = "abc"\<close> the process ends in an uncaught \<open>ValueError\<close> and writes
  nothing to standard output, where the claim has it write the JSON result list. With a
  \<open>top_k\<close> that is absent or an integer literal, positive or not, the claim holds
  (\<open>query_main_json\<close>).
\<close>

theorem query_main_bad_top_k:
  "query_main env [ustr ''query_database.py'', ustr ''hello'', ustr ''abc'']
     = (Uncaught (Exn (ustr ''invalid literal for int() with base 10: ''
                         @ [39] @ ustr ''abc'' @ [39])),
        \<lparr>out = [], err = []\<rparr>)"
  by (simp add: query_main_def py_int_def py_repr_def repr_char_def is_printable_def Let_def
      ustr_def to_ascii_def ascii_space_def is_digit_def)

end
